theory Spec2Isabelle
  imports Complex_Main
begin

section \<open>fframework: deferred-evaluation Functions\<close>

text \<open>
  A shallow embedding of \<^verbatim>\<open>fframework/function.py\<close> and of the parts of
  \<^verbatim>\<open>fframework/op.py\<close> that build and evaluate Function trees: the conversion
  \<^verbatim>\<open>asfunction\<close>, the lifting \<^verbatim>\<open>compound\<close>, the operator overloads
  \<^verbatim>\<open>__add__\<close>, \<^verbatim>\<open>__sub__\<close>, \<^verbatim>\<open>__rsub__\<close>, \<^verbatim>\<open>__neg__\<close>, \<^verbatim>\<open>__or__\<close>, \<^verbatim>\<open>sqrt\<close>,
  \<^verbatim>\<open>clip\<close>, and the classes Constant, Identity, OpConstant, OpIdentity, ComposedFunction,
  List, Tuple and Dict (the three with a leading underscore in the source), Sum,
  InBetween, Neg, Sqrt and Clip.

  The interpreter is Python 3: \<^verbatim>\<open>map\<close> returns a one-shot iterator, a class that
  defines \<^verbatim>\<open>__eq__\<close> without \<^verbatim>\<open>__hash__\<close> has unhashable instances, \<^verbatim>\<open>bool(x)\<close> goes
  through \<^verbatim>\<open>__bool__\<close>, and ordering unrelated types raises TypeError. The source
  carries idioms of both major versions (\<^verbatim>\<open>__bool__\<close> is Python 3's hook; \<^verbatim>\<open>cmp\<close>,
  \<^verbatim>\<open>__div__\<close> and a stored \<^verbatim>\<open>map\<close> result are Python 2's); the classes that need
  \<^verbatim>\<open>cmp\<close> or \<^verbatim>\<open>__div__\<close> are not modelled.
\<close>

subsection \<open>Values and Functions\<close>

text \<open>
  Python values, as far as the modelled code meets them. Floats are idealised as reals
  (no rounding, no overflow); the only float the properties below compute is
  \<^verbatim>\<open>math.sqrt(4) = 2.0\<close>, which is exact. A dict is an association list in insertion
  order with pairwise different keys.

  A Function object is a \<open>node\<close>. The fields of a node are the instance attributes
  set by its \<^verbatim>\<open>__init__\<close>. For the List, Tuple and Dict classes the attribute is the iterator
  \<^verbatim>\<open>map(asfunction, elements)\<close>: the node holds the elements the iterator has not
  yet produced, already converted (\<^verbatim>\<open>asfunction\<close> is pure and total, so it does not
  matter whether it runs when the iterator is built or when it is advanced). An
  object graph is represented as a tree: every subtree is an object of its own.
\<close>

datatype pyval =
    PNone
  | PBool bool
  | PInt int
  | PFloat real
  | PList "pyval list"
  | PTuple "pyval list"
  | PDict "(pyval \<times> pyval) list"
  | PFun node
and node =
    Constant pyval
  | Identity
  | OpConstant pyval
  | OpIdentity
  | ComposedFunction node node
  | List_F "node list"
  | Tuple_F "node list"
  | Dict_F "node list" "node list"
  | Sum node node
  | InBetween node node node
  | Neg
  | Sqrt "pyval list" "(string \<times> pyval) list"
  | Clip node node node

text \<open>
  \<open>Unmodelled\<close> is not a Python exception: it marks an operation on values whose
  outcome the tree representation cannot express (ordering two sequences, building a
  comparison Function, a dict keyed by object identity). Nothing below claims what
  Python does there.
\<close>

datatype error = TypeError | ValueError | Unmodelled

type_synonym res = "error + pyval"
type_synonym args = "pyval list"
type_synonym kwargs = "(string \<times> pyval) list"

text \<open>\<^verbatim>\<open>isinstance(x, Function)\<close> and \<^verbatim>\<open>isinstance(n, OpFunction)\<close>.\<close>

fun is_Function :: "pyval \<Rightarrow> bool" where
  "is_Function (PFun n) = True"
| "is_Function v = False"

fun is_OpFunction :: "node \<Rightarrow> bool" where
  "is_OpFunction (Constant v) = False"
| "is_OpFunction Identity = False"
| "is_OpFunction n = True"

subsection \<open>function.py\<close>

fun asfunction :: "pyval \<Rightarrow> node" where
  "asfunction (PFun n) = n"
| "asfunction function_like = Constant function_like"

text \<open>\<^verbatim>\<open>Constant.__call__(self, *args, **kwargs)\<close>.\<close>

definition Constant_call :: "pyval \<Rightarrow> args \<Rightarrow> kwargs \<Rightarrow> res" where
  "Constant_call val a k = Inr val"

text \<open>
  \<^verbatim>\<open>Identity.__call__(self, *args)\<close>: the signature has no \<^verbatim>\<open>**kwargs\<close>, so a
  keyword argument is a TypeError of the call.
\<close>

definition Identity_call :: "args \<Rightarrow> kwargs \<Rightarrow> res" where
  "Identity_call a k =
     (if k \<noteq> [] then Inl TypeError
      else if length a = 1 then Inr (hd a)
      else Inr (PTuple a))"

subsection \<open>Python's operators on values\<close>

text \<open>bool is a subclass of int; int, bool and float compare and add by value.\<close>

fun int_of :: "pyval \<Rightarrow> int option" where
  "int_of (PBool b) = Some (if b then 1 else 0)"
| "int_of (PInt i) = Some i"
| "int_of v = None"

fun num_of :: "pyval \<Rightarrow> real option" where
  "num_of (PBool b) = Some (if b then 1 else 0)"
| "num_of (PInt i) = Some (of_int i)"
| "num_of (PFloat r) = Some r"
| "num_of v = None"

fun is_op_value :: "pyval \<Rightarrow> bool" where
  "is_op_value (PFun n) = is_OpFunction n"
| "is_op_value v = False"

definition same_sequence :: "pyval \<Rightarrow> pyval \<Rightarrow> bool" where
  "same_sequence a b =
     (case (a, b) of
        (PList xs, PList ys) \<Rightarrow> True
      | (PTuple xs, PTuple ys) \<Rightarrow> True
      | _ \<Rightarrow> False)"

text \<open>
  \<^verbatim>\<open>a < b\<close> and \<^verbatim>\<open>a <= b\<close>. On an OpFunction operand the overload builds a
  comparison Function, and two lists or two tuples compare element by element with
  \<^verbatim>\<open>==\<close>: neither is expressed here. Any other pair that is not two numbers is
  a TypeError.
\<close>

definition py_lt :: "pyval \<Rightarrow> pyval \<Rightarrow> res" where
  "py_lt a b =
     (case (num_of a, num_of b) of
        (Some x, Some y) \<Rightarrow> Inr (PBool (x < y))
      | _ \<Rightarrow> if is_op_value a \<or> is_op_value b then Inl Unmodelled
             else if same_sequence a b then Inl Unmodelled
             else Inl TypeError)"

definition py_le :: "pyval \<Rightarrow> pyval \<Rightarrow> res" where
  "py_le a b =
     (case (num_of a, num_of b) of
        (Some x, Some y) \<Rightarrow> Inr (PBool (x \<le> y))
      | _ \<Rightarrow> if is_op_value a \<or> is_op_value b then Inl Unmodelled
             else if same_sequence a b then Inl Unmodelled
             else Inl TypeError)"

text \<open>
  \<^verbatim>\<open>bool(x)\<close>, as \<^verbatim>\<open>if\<close> and chained comparisons apply it. On an OpFunction,
  \<^verbatim>\<open>__bool__\<close> returns a ComposedFunction, which \<^verbatim>\<open>bool\<close> rejects.
\<close>

fun truthy :: "pyval \<Rightarrow> error + bool" where
  "truthy PNone = Inr False"
| "truthy (PBool b) = Inr b"
| "truthy (PInt i) = Inr (i \<noteq> 0)"
| "truthy (PFloat r) = Inr (r \<noteq> 0)"
| "truthy (PList xs) = Inr (xs \<noteq> [])"
| "truthy (PTuple xs) = Inr (xs \<noteq> [])"
| "truthy (PDict kvs) = Inr (kvs \<noteq> [])"
| "truthy (PFun n) = (if is_OpFunction n then Inl TypeError else Inr True)"

text \<open>\<^verbatim>\<open>math.sqrt(x)\<close>: a number is converted to float; a negative one is a ValueError.\<close>

definition math_sqrt :: "pyval \<Rightarrow> res" where
  "math_sqrt x =
     (case num_of x of
        Some r \<Rightarrow> if r < 0 then Inl ValueError else Inr (PFloat (sqrt r))
      | None \<Rightarrow> Inl TypeError)"

text \<open>
  \<^verbatim>\<open>hash(x)\<close> succeeds: lists and dicts are unhashable, a tuple hashes its elements,
  and OpFunction defines \<^verbatim>\<open>__eq__\<close> without \<^verbatim>\<open>__hash__\<close>, so only the Functions of
  function.py keep the default identity hash.
\<close>

fun hashable :: "pyval \<Rightarrow> bool" where
  "hashable PNone = True"
| "hashable (PBool b) = True"
| "hashable (PInt i) = True"
| "hashable (PFloat r) = True"
| "hashable (PList xs) = False"
| "hashable (PTuple xs) = list_all hashable xs"
| "hashable (PDict kvs) = False"
| "hashable (PFun n) = (\<not> is_OpFunction n)"

fun mentions_object :: "pyval \<Rightarrow> bool" where
  "mentions_object (PFun n) = True"
| "mentions_object (PTuple xs) = list_ex mentions_object xs"
| "mentions_object v = False"

text \<open>\<^verbatim>\<open>a == b\<close> on hashable values that mention no object.\<close>

fun key_eq :: "pyval \<Rightarrow> pyval \<Rightarrow> bool"
and key_eq_list :: "pyval list \<Rightarrow> pyval list \<Rightarrow> bool" where
  "key_eq (PTuple xs) b = (case b of PTuple ys \<Rightarrow> key_eq_list xs ys | _ \<Rightarrow> False)"
| "key_eq a b =
     (case b of
        PTuple ys \<Rightarrow> False
      | _ \<Rightarrow> (case (num_of a, num_of b) of
                (Some x, Some y) \<Rightarrow> x = y
              | (None, None) \<Rightarrow> a = b
              | _ \<Rightarrow> False))"
| "key_eq_list [] ys = (ys = [])"
| "key_eq_list (x # xs) ys =
     (case ys of [] \<Rightarrow> False | y # ys' \<Rightarrow> key_eq x y \<and> key_eq_list xs ys')"

fun dict_store :: "pyval \<Rightarrow> pyval \<Rightarrow> (pyval \<times> pyval) list \<Rightarrow> (pyval \<times> pyval) list" where
  "dict_store key val [] = [(key, val)]"
| "dict_store key val ((key', val') # d) =
     (if key_eq key key' then (key', val) # d else (key', val') # dict_store key val d)"

text \<open>
  \<^verbatim>\<open>dict(pairs)\<close>: every key is hashed, a repeated key keeps its first position and
  takes the last value.
\<close>

definition py_dict :: "(pyval \<times> pyval) list \<Rightarrow> res" where
  "py_dict pairs =
     (if \<not> list_all hashable (map fst pairs) then Inl TypeError
      else if list_ex mentions_object (map fst pairs) then Inl Unmodelled
      else Inr (PDict (foldl (\<lambda>d (key, val). dict_store key val d) [] pairs)))"

subsection \<open>Constructors of op.py\<close>

text \<open>
  Each \<open>X_init\<close> is \<^verbatim>\<open>X.__init__\<close>, returning the object it initialises. The
  constructors of ComposedFunction, Sum, InBetween and Clip convert their operands
  at once. \<^verbatim>\<open>Neg.__init__(self)\<close> takes no operand and passes none on to
  \<^verbatim>\<open>Apply.__init__\<close>; Sqrt inherits \<^verbatim>\<open>Apply.__init__(self, *args, **kwargs)\<close>, which
  stores what it is given.
\<close>

definition ComposedFunction_init :: "pyval \<Rightarrow> pyval \<Rightarrow> node" where
  "ComposedFunction_init a b = ComposedFunction (asfunction a) (asfunction b)"

definition Sum_init :: "pyval \<Rightarrow> pyval \<Rightarrow> node" where
  "Sum_init one two = Sum (asfunction one) (asfunction two)"

definition InBetween_init :: "pyval \<Rightarrow> pyval \<Rightarrow> pyval \<Rightarrow> node" where
  "InBetween_init val low high = InBetween (asfunction val) (asfunction low) (asfunction high)"

definition Clip_init :: "pyval \<Rightarrow> pyval \<Rightarrow> pyval \<Rightarrow> node" where
  "Clip_init low high leaf = Clip (asfunction low) (asfunction high) (asfunction leaf)"

definition Neg_init :: "args \<Rightarrow> kwargs \<Rightarrow> error + node" where
  "Neg_init a k = (if a = [] \<and> k = [] then Inr Neg else Inl TypeError)"

definition Sqrt_init :: "args \<Rightarrow> kwargs \<Rightarrow> node" where
  "Sqrt_init a k = Sqrt a k"

text \<open>
  \<^verbatim>\<open>self._elements = map(asfunction, elements)\<close>: a fresh iterator that will produce
  every element.
\<close>

definition List_init :: "pyval list \<Rightarrow> node" where
  "List_init elements = List_F (map asfunction elements)"

definition Tuple_init :: "pyval list \<Rightarrow> node" where
  "Tuple_init elements = Tuple_F (map asfunction elements)"

definition Dict_init :: "(pyval \<times> pyval) list \<Rightarrow> node" where
  "Dict_init dictionary =
     Dict_F (map asfunction (map fst dictionary)) (map asfunction (map snd dictionary))"

subsection \<open>Operator overloads of OpFunction\<close>

text \<open>The methods take \<open>self\<close>, an OpFunction, and the other operand as it is.\<close>

definition add_op :: "node \<Rightarrow> pyval \<Rightarrow> node" where
  "add_op self other = (let other = asfunction other in Sum_init (PFun self) (PFun other))"

definition radd_op :: "node \<Rightarrow> pyval \<Rightarrow> node" where
  "radd_op self other = (let other = asfunction other in Sum_init (PFun other) (PFun self))"

definition or_op :: "node \<Rightarrow> pyval \<Rightarrow> node" where
  "or_op self other = ComposedFunction_init (PFun self) other"

definition neg_op :: "node \<Rightarrow> error + node" where
  "neg_op self = (case Neg_init [] [] of Inl e \<Rightarrow> Inl e | Inr ng \<Rightarrow> Inr (or_op self (PFun ng)))"

text \<open>\<^verbatim>\<open>__sub__\<close>: \<^verbatim>\<open>Sum(self, Neg(other))\<close>, the operand handed to \<^verbatim>\<open>Neg\<close>.\<close>

definition sub_op :: "node \<Rightarrow> pyval \<Rightarrow> error + node" where
  "sub_op self other =
     (let other = asfunction other in
      case Neg_init [PFun other] [] of
        Inl e \<Rightarrow> Inl e
      | Inr ng \<Rightarrow> Inr (Sum_init (PFun self) (PFun ng)))"

text \<open>\<^verbatim>\<open>__rsub__\<close>: \<^verbatim>\<open>Sum(other, -self)\<close>.\<close>

definition rsub_op :: "node \<Rightarrow> pyval \<Rightarrow> error + node" where
  "rsub_op self other =
     (let other = asfunction other in
      case neg_op self of
        Inl e \<Rightarrow> Inl e
      | Inr ng \<Rightarrow> Inr (Sum_init (PFun other) (PFun ng)))"

definition sqrt_op :: "node \<Rightarrow> node" where
  "sqrt_op self = or_op self (PFun (Sqrt_init [] []))"

definition clip_op :: "node \<Rightarrow> pyval \<Rightarrow> pyval \<Rightarrow> node" where
  "clip_op self low high = Clip_init low high (PFun self)"

text \<open>
  The expression \<^verbatim>\<open>a | b\<close> with a Function on the left. Only OpFunction defines
  \<^verbatim>\<open>__or__\<close>, nothing in the repository defines \<^verbatim>\<open>__ror__\<close>, and the built-in
  types refuse a Function operand: on a Function of function.py the operator is a
  TypeError.
\<close>

definition pipe :: "node \<Rightarrow> pyval \<Rightarrow> error + node" where
  "pipe a b = (if is_OpFunction a then Inr (or_op a b) else Inl TypeError)"

subsection \<open>Arithmetic on values\<close>

fun op_node :: "pyval \<Rightarrow> node option" where
  "op_node (PFun n) = (if is_OpFunction n then Some n else None)"
| "op_node v = None"

text \<open>
  \<^verbatim>\<open>a + b\<close>: \<^verbatim>\<open>__add__\<close> of an OpFunction on the left, else \<^verbatim>\<open>__radd__\<close> of one on
  the right, else the built-in addition of numbers and the concatenation of two lists
  or two tuples.
\<close>

definition py_add :: "pyval \<Rightarrow> pyval \<Rightarrow> res" where
  "py_add a b =
     (case op_node a of
        Some n \<Rightarrow> Inr (PFun (add_op n b))
      | None \<Rightarrow>
     (case op_node b of
        Some m \<Rightarrow> Inr (PFun (radd_op m a))
      | None \<Rightarrow>
     (case (int_of a, int_of b) of
        (Some i, Some j) \<Rightarrow> Inr (PInt (i + j))
      | _ \<Rightarrow>
     (case (num_of a, num_of b) of
        (Some x, Some y) \<Rightarrow> Inr (PFloat (x + y))
      | _ \<Rightarrow>
     (case (a, b) of
        (PList xs, PList ys) \<Rightarrow> Inr (PList (xs @ ys))
      | (PTuple xs, PTuple ys) \<Rightarrow> Inr (PTuple (xs @ ys))
      | _ \<Rightarrow> Inl TypeError)))))"

text \<open>\<^verbatim>\<open>-a\<close>.\<close>

definition py_neg :: "pyval \<Rightarrow> res" where
  "py_neg a =
     (case op_node a of
        Some n \<Rightarrow> (case neg_op n of Inl e \<Rightarrow> Inl e | Inr f \<Rightarrow> Inr (PFun f))
      | None \<Rightarrow>
     (case int_of a of
        Some i \<Rightarrow> Inr (PInt (- i))
      | None \<Rightarrow>
     (case a of
        PFloat r \<Rightarrow> Inr (PFloat (- r))
      | _ \<Rightarrow> Inl TypeError)))"

subsection \<open>The numeric backend\<close>

text \<open>
  numpy is not part of the repository. The three functions of it that the modelled
  classes call are a parameter; \<open>None\<close> is \<^verbatim>\<open>numpy_available = False\<close>.
\<close>

record numpy =
  np_sqrt :: "pyval \<Rightarrow> args \<Rightarrow> kwargs \<Rightarrow> res"
  np_clip :: "pyval \<Rightarrow> pyval \<Rightarrow> pyval \<Rightarrow> res"
  np_logical_and :: "pyval \<Rightarrow> pyval \<Rightarrow> res"

subsection \<open>Calling a Function\<close>

text \<open>
  A method \<^verbatim>\<open>__call__(self, x)\<close> takes its one parameter by position or by name.
\<close>

definition bind1 :: "string \<Rightarrow> args \<Rightarrow> kwargs \<Rightarrow> res" where
  "bind1 name a k =
     (case (a, k) of
        ([x], []) \<Rightarrow> Inr x
      | ([], [(key, x)]) \<Rightarrow> if key = name then Inr x else Inl TypeError
      | _ \<Rightarrow> Inl TypeError)"

definition Neg_call :: "args \<Rightarrow> kwargs \<Rightarrow> res" where
  "Neg_call a k = (case bind1 ''invertible'' a k of Inl e \<Rightarrow> Inl e | Inr x \<Rightarrow> py_neg x)"

definition Sqrt_call :: "numpy option \<Rightarrow> args \<Rightarrow> kwargs \<Rightarrow> args \<Rightarrow> kwargs \<Rightarrow> res" where
  "Sqrt_call np self_args self_kwargs a k =
     (case bind1 ''radicand'' a k of
        Inl e \<Rightarrow> Inl e
      | Inr radicand \<Rightarrow>
          (case np of
             Some m \<Rightarrow> np_sqrt m radicand self_args self_kwargs
           | None \<Rightarrow> math_sqrt radicand))"

text \<open>
  The last statement of \<^verbatim>\<open>InBetween.__call__\<close>, on the three evaluated operands.
  The chained comparison \<^verbatim>\<open>low <= value < high\<close> is \<^verbatim>\<open>low <= value and value < high\<close>.
\<close>

definition InBetween_result :: "numpy option \<Rightarrow> pyval \<Rightarrow> pyval \<Rightarrow> pyval \<Rightarrow> res" where
  "InBetween_result np low high val =
     (case np of
        Some m \<Rightarrow>
          (case py_le low val of
             Inl e \<Rightarrow> Inl e
           | Inr c1 \<Rightarrow> (case py_lt val high of
                          Inl e \<Rightarrow> Inl e
                        | Inr c2 \<Rightarrow> np_logical_and m c1 c2))
      | None \<Rightarrow>
          (case py_le low val of
             Inl e \<Rightarrow> Inl e
           | Inr c1 \<Rightarrow> (case truthy c1 of
                          Inl e \<Rightarrow> Inl e
                        | Inr t \<Rightarrow> if t then py_lt val high else Inr c1)))"

text \<open>The last statement of \<^verbatim>\<open>Clip.__call__\<close>.\<close>

definition Clip_result :: "numpy option \<Rightarrow> pyval \<Rightarrow> pyval \<Rightarrow> pyval \<Rightarrow> res" where
  "Clip_result np low high leaf =
     (case np of
        Some m \<Rightarrow> np_clip m leaf low high
      | None \<Rightarrow>
          (case py_lt leaf low of
             Inl e \<Rightarrow> Inl e
           | Inr c1 \<Rightarrow> (case truthy c1 of
               Inl e \<Rightarrow> Inl e
             | Inr t1 \<Rightarrow> if t1 then Inr low else
                 (case py_lt leaf high of
                    Inl e \<Rightarrow> Inl e
                  | Inr c2 \<Rightarrow> (case truthy c2 of
                      Inl e \<Rightarrow> Inl e
                    | Inr t2 \<Rightarrow> if t2 then Inr leaf else Inr high)))))"

text \<open>
  \<open>call np f args kwargs\<close> is \<^verbatim>\<open>f(*args, **kwargs)\<close>: the value returned or the
  exception raised, and the object \<open>f\<close> as the call leaves it. \<open>call_elems\<close> is the
  comprehension \<^verbatim>\<open>[element(*args, **kwargs) for element in self._elements]\<close>; it
  advances the iterator before it calls the element, so what remains after an
  exception are the elements behind the one that raised.
\<close>

fun call :: "numpy option \<Rightarrow> node \<Rightarrow> args \<Rightarrow> kwargs \<Rightarrow> res \<times> node"
and call_elems :: "numpy option \<Rightarrow> node list \<Rightarrow> args \<Rightarrow> kwargs \<Rightarrow> (error + pyval list) \<times> node list"
where
  "call np (Constant v) a k = (Constant_call v a k, Constant v)"
| "call np Identity a k = (Identity_call a k, Identity)"
| "call np (OpConstant v) a k = (Constant_call v a k, OpConstant v)"
| "call np OpIdentity a k = (Identity_call a k, OpIdentity)"
| "call np (ComposedFunction fa fb) a k =
     (case call np fa a k of
        (Inl e, fa') \<Rightarrow> (Inl e, ComposedFunction fa' fb)
      | (Inr x, fa') \<Rightarrow>
          (case call np fb [x] [] of (r, fb') \<Rightarrow> (r, ComposedFunction fa' fb')))"
| "call np (List_F es) a k =
     (case call_elems np es a k of
        (Inl e, es') \<Rightarrow> (Inl e, List_F es')
      | (Inr rs, es') \<Rightarrow> (Inr (PList rs), List_F es'))"
| "call np (Tuple_F es) a k =
     (case call_elems np es a k of
        (Inl e, es') \<Rightarrow> (Inl e, Tuple_F es')
      | (Inr rs, es') \<Rightarrow> (Inr (PTuple rs), Tuple_F es'))"
| "call np (Dict_F ks vs) a k =
     (case call_elems np ks a k of
        (Inl e, ks') \<Rightarrow> (Inl e, Dict_F ks' vs)
      | (Inr rk, ks') \<Rightarrow>
          (case call_elems np vs a k of
             (Inl e, vs') \<Rightarrow> (Inl e, Dict_F ks' vs')
           | (Inr rv, vs') \<Rightarrow> (py_dict (zip rk rv), Dict_F ks' vs')))"
| "call np (Sum one two) a k =
     (case call np one a k of
        (Inl e, one') \<Rightarrow> (Inl e, Sum one' two)
      | (Inr x, one') \<Rightarrow>
          (case call np two a k of
             (Inl e, two') \<Rightarrow> (Inl e, Sum one' two')
           | (Inr y, two') \<Rightarrow> (py_add x y, Sum one' two')))"
| "call np (InBetween val low high) a k =
     (case call np low a k of
        (Inl e, low') \<Rightarrow> (Inl e, InBetween val low' high)
      | (Inr lo, low') \<Rightarrow>
          (case call np high a k of
             (Inl e, high') \<Rightarrow> (Inl e, InBetween val low' high')
           | (Inr hi, high') \<Rightarrow>
               (case call np val a k of
                  (Inl e, val') \<Rightarrow> (Inl e, InBetween val' low' high')
                | (Inr v, val') \<Rightarrow> (InBetween_result np lo hi v, InBetween val' low' high'))))"
| "call np Neg a k = (Neg_call a k, Neg)"
| "call np (Sqrt self_args self_kwargs) a k =
     (Sqrt_call np self_args self_kwargs a k, Sqrt self_args self_kwargs)"
| "call np (Clip low high leaf) a k =
     (case call np low a k of
        (Inl e, low') \<Rightarrow> (Inl e, Clip low' high leaf)
      | (Inr lo, low') \<Rightarrow>
          (case call np high a k of
             (Inl e, high') \<Rightarrow> (Inl e, Clip low' high' leaf)
           | (Inr hi, high') \<Rightarrow>
               (case call np leaf a k of
                  (Inl e, leaf') \<Rightarrow> (Inl e, Clip low' high' leaf')
                | (Inr lf, leaf') \<Rightarrow> (Clip_result np lo hi lf, Clip low' high' leaf'))))"
| "call_elems np [] a k = (Inr [], [])"
| "call_elems np (element # es) a k =
     (case call np element a k of
        (Inl e, element') \<Rightarrow> (Inl e, es)
      | (Inr r, element') \<Rightarrow>
          (case call_elems np es a k of
             (Inl e, es') \<Rightarrow> (Inl e, es')
           | (Inr rs, es') \<Rightarrow> (Inr (r # rs), es')))"

text \<open>The value returned or the exception raised by one call.\<close>

definition result :: "numpy option \<Rightarrow> node \<Rightarrow> args \<Rightarrow> kwargs \<Rightarrow> res" where
  "result np f a k = fst (call np f a k)"

text \<open>The results of calling \<open>f\<close> and then calling it again with the same arguments.\<close>

definition call_twice :: "numpy option \<Rightarrow> node \<Rightarrow> args \<Rightarrow> kwargs \<Rightarrow> res \<times> res" where
  "call_twice np f a k =
     (case call np f a k of (r1, f1) \<Rightarrow> (case call np f1 a k of (r2, f2) \<Rightarrow> (r1, r2)))"

subsection \<open>compound\<close>

text \<open>
  \<^verbatim>\<open>dict(zip(keys, values))\<close> where the keys are Function objects, as \<open>compound\<close>
  builds it. The keys are pairwise different objects (each is new or is a key of the
  dict being lifted), so none replaces another; each must be hashable.
\<close>

definition dict_of_nodes :: "node list \<Rightarrow> node list \<Rightarrow> error + (pyval \<times> pyval) list" where
  "dict_of_nodes keys vals =
     (if list_all (\<lambda>key. hashable (PFun key)) (take (length vals) keys)
      then Inr (zip (map PFun keys) (map PFun vals))
      else Inl TypeError)"

fun compound :: "pyval \<Rightarrow> error + node"
and compound_list :: "pyval list \<Rightarrow> error + node list"
and compound_keys :: "(pyval \<times> pyval) list \<Rightarrow> error + node list"
and compound_values :: "(pyval \<times> pyval) list \<Rightarrow> error + node list"
where
  "compound (PList obj) =
     (case compound_list obj of
        Inl e \<Rightarrow> Inl e
      | Inr ns \<Rightarrow> Inr (List_init (map PFun ns)))"
| "compound (PTuple obj) =
     (case compound_list obj of
        Inl e \<Rightarrow> Inl e
      | Inr ns \<Rightarrow> Inr (Tuple_init (map PFun ns)))"
| "compound (PDict obj) =
     (case compound_keys obj of
        Inl e \<Rightarrow> Inl e
      | Inr keys \<Rightarrow>
          (case compound_values obj of
             Inl e \<Rightarrow> Inl e
           | Inr vals \<Rightarrow>
               (case dict_of_nodes keys vals of
                  Inl e \<Rightarrow> Inl e
                | Inr d \<Rightarrow> Inr (Dict_init d))))"
| "compound obj = Inr (asfunction obj)"
| "compound_list [] = Inr []"
| "compound_list (element # obj) =
     (case compound element of
        Inl e \<Rightarrow> Inl e
      | Inr n \<Rightarrow> (case compound_list obj of Inl e \<Rightarrow> Inl e | Inr ns \<Rightarrow> Inr (n # ns)))"
| "compound_keys [] = Inr []"
| "compound_keys ((key, val) # obj) =
     (case compound key of
        Inl e \<Rightarrow> Inl e
      | Inr n \<Rightarrow> (case compound_keys obj of Inl e \<Rightarrow> Inl e | Inr ns \<Rightarrow> Inr (n # ns)))"
| "compound_values [] = Inr []"
| "compound_values ((key, val) # obj) =
     (case compound val of
        Inl e \<Rightarrow> Inl e
      | Inr n \<Rightarrow> (case compound_values obj of Inl e \<Rightarrow> Inl e | Inr ns \<Rightarrow> Inr (n # ns)))"

subsection \<open>Auxiliary definitions for the properties\<close>

text \<open>The list a comprehension over \<open>es\<close> returns, or the exception it raises.\<close>

definition results :: "numpy option \<Rightarrow> node list \<Rightarrow> args \<Rightarrow> kwargs \<Rightarrow> error + pyval list" where
  "results np es a k = fst (call_elems np es a k)"

text \<open>Values that are neither aggregates nor Functions.\<close>

fun is_scalar :: "pyval \<Rightarrow> bool" where
  "is_scalar PNone = True"
| "is_scalar (PBool b) = True"
| "is_scalar (PInt i) = True"
| "is_scalar (PFloat r) = True"
| "is_scalar v = False"

text \<open>
  Object identity. A tree identifies a Function with its structure, so that
  \<^verbatim>\<open>asfunction\<close> returns the very object it was given is stated on a store: a list of
  objects, an object's address its index. \<open>asfunction_ref\<close> is \<^verbatim>\<open>asfunction\<close> on
  addresses: \<^verbatim>\<open>return function_like\<close> returns the address it was given and leaves the
  store alone, \<^verbatim>\<open>return Constant(function_like)\<close> allocates a new object behind the
  existing ones. An address outside the store is not a reference (\<open>None\<close>).
\<close>

definition asfunction_ref :: "pyval list \<Rightarrow> nat \<Rightarrow> (nat \<times> pyval list) option" where
  "asfunction_ref h function_like =
     (if \<not> function_like < length h then None
      else if is_Function (h ! function_like) then Some (function_like, h)
      else Some (length h, h @ [PFun (Constant (h ! function_like))]))"

text \<open>
  To state which arguments reach a leaf: \<open>fix_leaf\<close> replaces a leaf by the Constant
  of what the leaf returns on the arguments \<open>a\<close>, \<open>k\<close> (and keeps a leaf that raises
  on them), and \<open>probe\<close> does so at every leaf of a tree that is not behind the
  right-hand side of a pipe.
\<close>

definition fix_leaf :: "numpy option \<Rightarrow> args \<Rightarrow> kwargs \<Rightarrow> node \<Rightarrow> node" where
  "fix_leaf np a k leaf = (case result np leaf a k of Inr v \<Rightarrow> Constant v | Inl e \<Rightarrow> leaf)"

fun probe :: "numpy option \<Rightarrow> args \<Rightarrow> kwargs \<Rightarrow> node \<Rightarrow> node"
and probe_list :: "numpy option \<Rightarrow> args \<Rightarrow> kwargs \<Rightarrow> node list \<Rightarrow> node list" where
  "probe np a k (Constant v) = fix_leaf np a k (Constant v)"
| "probe np a k Identity = fix_leaf np a k Identity"
| "probe np a k (OpConstant v) = fix_leaf np a k (OpConstant v)"
| "probe np a k OpIdentity = fix_leaf np a k OpIdentity"
| "probe np a k (ComposedFunction fa fb) = ComposedFunction (probe np a k fa) fb"
| "probe np a k (List_F es) = List_F (probe_list np a k es)"
| "probe np a k (Tuple_F es) = Tuple_F (probe_list np a k es)"
| "probe np a k (Dict_F ks vs) = Dict_F (probe_list np a k ks) (probe_list np a k vs)"
| "probe np a k (Sum one two) = Sum (probe np a k one) (probe np a k two)"
| "probe np a k (InBetween val low high) =
     InBetween (probe np a k val) (probe np a k low) (probe np a k high)"
| "probe np a k Neg = fix_leaf np a k Neg"
| "probe np a k (Sqrt sa sk) = fix_leaf np a k (Sqrt sa sk)"
| "probe np a k (Clip low high leaf) =
     Clip (probe np a k low) (probe np a k high) (probe np a k leaf)"
| "probe_list np a k [] = []"
| "probe_list np a k (e # es) = probe np a k e # probe_list np a k es"

text \<open>
  What InBetween needs of the backend: on two Python booleans, \<^verbatim>\<open>numpy.logical_and\<close>
  is their conjunction.
\<close>

definition and_on_bools :: "numpy \<Rightarrow> bool" where
  "and_on_bools m = (\<forall>c1 c2. np_logical_and m (PBool c1) (PBool c2) = Inr (PBool (c1 \<and> c2)))"

definition backend_ok :: "numpy option \<Rightarrow> bool" where
  "backend_ok np = (case np of None \<Rightarrow> True | Some m \<Rightarrow> and_on_bools m)"

text \<open>
  A backend to instantiate the parameter with: each function does on scalars what the
  fallback branch of the class that calls it does.
\<close>

definition scalar_backend :: numpy where
  "scalar_backend =
     \<lparr> np_sqrt = (\<lambda>x a k. math_sqrt x),
       np_clip = (\<lambda>x low high. Clip_result None low high x),
       np_logical_and = (\<lambda>c1 c2.
          case truthy c1 of
            Inl e \<Rightarrow> Inl e
          | Inr t1 \<Rightarrow> (case truthy c2 of Inl e \<Rightarrow> Inl e | Inr t2 \<Rightarrow> Inr (PBool (t1 \<and> t2)))) \<rparr>"

section \<open>Properties\<close>

subsection \<open>One call, without the state\<close>

lemma result_Constant: "result np (Constant v) a k = Inr v"
  by (simp add: result_def Constant_call_def)

lemma result_OpConstant: "result np (OpConstant v) a k = Inr v"
  by (simp add: result_def Constant_call_def)

lemma result_Identity: "result np Identity a k = Identity_call a k"
  by (simp add: result_def)

lemma result_OpIdentity: "result np OpIdentity a k = Identity_call a k"
  by (simp add: result_def)

lemma result_Neg: "result np Neg a k = Neg_call a k"
  by (simp add: result_def)

lemma result_Sqrt: "result np (Sqrt sa sk) a k = Sqrt_call np sa sk a k"
  by (simp add: result_def)

lemma result_ComposedFunction:
  "result np (ComposedFunction fa fb) a k =
     (case result np fa a k of Inl e \<Rightarrow> Inl e | Inr x \<Rightarrow> result np fb [x] [])"
  by (simp add: result_def split: prod.splits sum.splits)

lemma result_Sum:
  "result np (Sum one two) a k =
     (case result np one a k of
        Inl e \<Rightarrow> Inl e
      | Inr x \<Rightarrow> (case result np two a k of Inl e \<Rightarrow> Inl e | Inr y \<Rightarrow> py_add x y))"
  by (simp add: result_def split: prod.splits sum.splits)

lemma result_InBetween:
  "result np (InBetween val low high) a k =
     (case result np low a k of
        Inl e \<Rightarrow> Inl e
      | Inr lo \<Rightarrow> (case result np high a k of
          Inl e \<Rightarrow> Inl e
        | Inr hi \<Rightarrow> (case result np val a k of
            Inl e \<Rightarrow> Inl e
          | Inr v \<Rightarrow> InBetween_result np lo hi v)))"
  by (simp add: result_def split: prod.splits sum.splits)

lemma result_Clip:
  "result np (Clip low high leaf) a k =
     (case result np low a k of
        Inl e \<Rightarrow> Inl e
      | Inr lo \<Rightarrow> (case result np high a k of
          Inl e \<Rightarrow> Inl e
        | Inr hi \<Rightarrow> (case result np leaf a k of
            Inl e \<Rightarrow> Inl e
          | Inr lf \<Rightarrow> Clip_result np lo hi lf)))"
  by (simp add: result_def split: prod.splits sum.splits)

lemma result_List:
  "result np (List_F es) a k =
     (case results np es a k of Inl e \<Rightarrow> Inl e | Inr rs \<Rightarrow> Inr (PList rs))"
  by (simp add: result_def results_def split: prod.splits sum.splits)

lemma result_Tuple:
  "result np (Tuple_F es) a k =
     (case results np es a k of Inl e \<Rightarrow> Inl e | Inr rs \<Rightarrow> Inr (PTuple rs))"
  by (simp add: result_def results_def split: prod.splits sum.splits)

lemma result_Dict:
  "result np (Dict_F ks vs) a k =
     (case results np ks a k of
        Inl e \<Rightarrow> Inl e
      | Inr rk \<Rightarrow> (case results np vs a k of Inl e \<Rightarrow> Inl e | Inr rv \<Rightarrow> py_dict (zip rk rv)))"
  by (simp add: result_def results_def split: prod.splits sum.splits)

lemma results_Nil: "results np [] a k = Inr []"
  by (simp add: results_def)

lemma results_Cons:
  "results np (e # es) a k =
     (case result np e a k of
        Inl err \<Rightarrow> Inl err
      | Inr r \<Rightarrow> (case results np es a k of Inl err \<Rightarrow> Inl err | Inr rs \<Rightarrow> Inr (r # rs)))"
  by (simp add: result_def results_def split: prod.splits sum.splits)

lemma results_all2:
  "list_all2 (\<lambda>n r. result np n a k = Inr r) ns rs \<Longrightarrow> results np ns a k = Inr rs"
  by (induction ns rs rule: list_all2_induct) (simp_all add: results_Nil results_Cons)

subsection \<open>Conversion and lifting\<close>

lemma asfunction_plain: "\<not> is_Function v \<Longrightarrow> asfunction v = Constant v"
  by (cases v) simp_all

lemma asfunction_node: "is_Function v \<Longrightarrow> PFun (asfunction v) = v"
  by (cases v) simp_all

lemma map_asfunction_PFun: "map asfunction (map PFun ns) = ns"
  by (induction ns) simp_all

lemma map_asfunction_scalars: "list_all is_scalar vs \<Longrightarrow> map asfunction vs = map Constant vs"
  by (induction vs) (auto elim: is_scalar.elims)

lemma compound_scalar: "is_scalar v \<Longrightarrow> compound v = Inr (Constant v)"
  by (cases v) simp_all

lemma compound_list_scalars:
  "list_all is_scalar vs \<Longrightarrow> compound_list vs = Inr (map Constant vs)"
  by (induction vs) (simp_all add: compound_scalar)

lemma compound_list_all2:
  "list_all2 (\<lambda>e n. compound e = Inr n) es ns \<Longrightarrow> compound_list es = Inr ns"
  by (induction es ns rule: list_all2_induct) simp_all

text \<open>A dict keyed by a Function of function.py is lifted: such a key is hashable.\<close>

lemma compound_dict_plain_key:
  "compound (PDict [(PFun (Constant (PInt 3)), PFun (Constant (PInt 4)))]) =
     Inr (Dict_F [Constant (PInt 3)] [Constant (PInt 4)])"
  by (simp add: dict_of_nodes_def Dict_init_def)

subsection \<open>The iterator of a lifted sequence\<close>

lemma call_elems_exhausts: "call_elems np es a k = (Inr rs, es') \<Longrightarrow> es' = []"
  by (induction es arbitrary: rs es') (auto split: prod.splits sum.splits)

lemma call_elems_constants: "call_elems np (map Constant vs) a k = (Inr vs, [])"
  by (induction vs) (simp_all add: Constant_call_def)

text \<open>Whatever a List Function returned, the next call finds its iterator exhausted.\<close>

lemma List_second_call:
  "call np (List_F es) a k = (Inr r, f1) \<Longrightarrow> call np f1 a k = (Inr (PList []), f1)"
  by (auto split: prod.splits sum.splits dest: call_elems_exhausts)

subsection \<open>Subtraction\<close>

text \<open>
  The reflected subtraction negates through the pipe, \<^verbatim>\<open>self | Neg()\<close>, and is built
  without an error.
\<close>

lemma rsub_op_builds: "rsub_op self other = Inr (Sum (asfunction other) (ComposedFunction self Neg))"
  by (simp add: rsub_op_def neg_op_def Neg_init_def or_op_def ComposedFunction_init_def
      Sum_init_def Let_def)

text \<open>
  C1. For an operator-algebra Function \<open>a\<close> and any operand \<open>b\<close>, \<^verbatim>\<open>a - b\<close> should
  build the Sum of \<open>a\<close> and the negation of the converted \<open>b\<close>. The code hands the
  operand to \<^verbatim>\<open>Neg\<close>, whose constructor takes none: \<^verbatim>\<open>__sub__\<close> raises TypeError for
  every \<open>a\<close> and \<open>b\<close>, and no Function is built.
\<close>

theorem sub_raises_at_construction: "sub_op a b = Inl TypeError"
  by (simp add: sub_op_def Neg_init_def Let_def)

theorem sub_raises_at_construction_witness: "sub_op (OpConstant (PInt 5)) (PInt 3) = Inl TypeError"
  using sub_raises_at_construction [of "OpConstant (PInt 5)" "PInt 3"] by simp

subsection \<open>Repeated evaluation\<close>

text \<open>
  C2. Lifting a list of plain values and evaluating the Function twice with the same
  arguments should return the same list twice. For every list \<open>vs\<close> of scalars the
  first call returns \<open>vs\<close> and the second returns the empty list: the first call has
  used up the iterator \<^verbatim>\<open>map(asfunction, elements)\<close> that the object holds. (The code
  counts on the \<^verbatim>\<open>map\<close> of Python 2, which returns a list.)
\<close>

theorem lifted_list_second_call_empty:
  assumes "list_all is_scalar vs"
  shows "compound (PList vs) = Inr (List_init vs) \<and>
         call_twice np (List_init vs) a k = (Inr (PList vs), Inr (PList []))"
proof -
  have conv: "map asfunction (map PFun (map Constant vs)) = map asfunction vs"
    using assms by (simp only: map_asfunction_PFun map_asfunction_scalars)
  have lift: "compound (PList vs) = Inr (List_init vs)"
    using assms by (simp add: compound_list_scalars List_init_def conv del: map_map)
  have twice: "call_twice np (List_init vs) a k = (Inr (PList vs), Inr (PList []))"
    using assms
    by (simp add: List_init_def map_asfunction_scalars call_twice_def call_elems_constants)
  from lift twice show ?thesis by simp
qed

theorem lifted_list_second_call_empty_witness:
  "list_all is_scalar [PInt 1, PInt 2] \<and>
   compound (PList [PInt 1, PInt 2]) = Inr (List_init [PInt 1, PInt 2]) \<and>
   call_twice None (List_init [PInt 1, PInt 2]) [] [] =
     (Inr (PList [PInt 1, PInt 2]), Inr (PList []))"
  using lifted_list_second_call_empty [of "[PInt 1, PInt 2]" None "[]" "[]"] by simp

subsection \<open>Errors at construction\<close>

text \<open>
  C3. Conversion and lifting should never fail. \<open>asfunction\<close> is total, but
  \<open>compound\<close> raises on a dict with a tuple key: the key is lifted to a Tuple Function,
  an OpFunction and therefore unhashable, and \<^verbatim>\<open>dict(zip(keys, values))\<close> raises
  TypeError. The input is \<^verbatim>\<open>{(1, 2): 3}\<close>.
\<close>

theorem compound_tuple_key_raises:
  "compound (PDict [(PTuple [PInt 1, PInt 2], PInt 3)]) = Inl TypeError"
  by (simp add: Tuple_init_def dict_of_nodes_def)

subsection \<open>Which arguments reach the leaves\<close>

lemma result_fix_leaf: "result np (fix_leaf np a k leaf) a k = result np leaf a k"
  by (simp add: fix_leaf_def result_Constant split: sum.splits)

lemma probe_result:
  "result np (probe np a k f) a k = result np f a k"
  "results np (probe_list np a k es) a k = results np es a k"
  by (induction np a k f and np a k es rule: probe_probe_list.induct)
     (simp_all add: result_fix_leaf result_ComposedFunction result_Sum result_InBetween
        result_Clip result_List result_Tuple result_Dict results_Nil results_Cons
        cong: sum.case_cong)

text \<open>
  C4, as stated, fails: the call arguments do not reach every leaf, and a tree with an
  Identity leaf cannot be called with keyword arguments. In \<^verbatim>\<open>OpConstant(1) | OpIdentity()\<close>
  called with \<open>5\<close> the Identity leaf returns \<open>1\<close>: it received the output of the
  left-hand side, not the argument \<open>5\<close>. And \<^verbatim>\<open>Sum(OpIdentity(), OpConstant(1))(5, x=2)\<close>
  raises TypeError, because \<^verbatim>\<open>Identity.__call__(self, *args)\<close> accepts no keyword.
\<close>

theorem forwarding_counterexample:
  "result None (ComposedFunction (OpConstant (PInt 1)) OpIdentity) [PInt 5] [] = Inr (PInt 1) \<and>
   result None (Sum OpIdentity (OpConstant (PInt 1))) [PInt 5] [(''x'', PInt 2)] = Inl TypeError"
  by (simp add: result_ComposedFunction result_Sum result_OpConstant result_OpIdentity
      Identity_call_def)

text \<open>
  C4, as amended. For every tree and every call, the positional and keyword arguments
  reach, unchanged, every leaf that is not behind the right-hand side of a pipe: the
  call returns what it returns when each such leaf is replaced by the Constant of the
  leaf's own result on exactly these arguments. A pipe \<open>ComposedFunction fa fb\<close>
  hands the arguments to \<open>fa\<close> only, and calls \<open>fb\<close> with the result of \<open>fa\<close> as
  its single positional argument and no keyword argument.
\<close>

theorem arguments_reach_exposed_leaves:
  "result np (probe np a k f) a k = result np f a k \<and>
   result np (ComposedFunction fa fb) a k =
     (case result np fa a k of Inl e \<Rightarrow> Inl e | Inr x \<Rightarrow> result np fb [x] [])"
  by (simp add: probe_result result_ComposedFunction)

theorem arguments_reach_exposed_leaves_witness:
  "probe None [PInt 5] [] (Sum OpIdentity (OpConstant (PInt 1))) =
     Sum (Constant (PInt 5)) (Constant (PInt 1)) \<and>
   result None (Sum OpIdentity (OpConstant (PInt 1))) [PInt 5] [] = Inr (PInt 6) \<and>
   probe None [] [(''invertible'', PInt 5)] (Sum Neg (OpConstant (PInt 1))) =
     Sum (Constant (PInt (- 5))) (Constant (PInt 1)) \<and>
   result None (Sum Neg (OpConstant (PInt 1))) [] [(''invertible'', PInt 5)] = Inr (PInt (- 4)) \<and>
   result None (ComposedFunction (OpConstant (PInt 1)) OpIdentity) [PInt 5] [] = Inr (PInt 1)"
  using arguments_reach_exposed_leaves
    [of None "[PInt 5]" "[]" "Sum OpIdentity (OpConstant (PInt 1))" "OpConstant (PInt 1)" OpIdentity]
  by (simp add: fix_leaf_def result_OpConstant result_OpIdentity result_Neg result_Sum
      result_Constant result_ComposedFunction Identity_call_def Neg_call_def bind1_def
      py_neg_def py_add_def)

subsection \<open>The pipe\<close>

text \<open>
  C5, as stated, fails at its own example: \<^verbatim>\<open>Constant(4) | Sqrt()\<close> raises TypeError
  when it is built, since the Constant of function.py has no operator overloads (they
  are OpFunction's; the overloaded constant is OpConstant).
\<close>

theorem pipe_plain_constant_raises:
  "pipe (Constant (PInt 4)) (PFun (Sqrt_init [] [])) = Inl TypeError"
  by (simp add: pipe_def)

text \<open>
  C5, as amended. For every operator-algebra Function \<open>fa\<close>, every right operand \<open>b\<close>
  (converted by \<open>asfunction\<close>) and all call arguments, \<^verbatim>\<open>fa | b\<close> is built and
  \<^verbatim>\<open>(fa | b)(args)\<close> equals \<^verbatim>\<open>b(fa(args))\<close>: an exception of \<open>fa\<close> propagates,
  otherwise \<open>b\<close> is called with the result of \<open>fa\<close> as its only argument. In
  particular, without numpy, \<^verbatim>\<open>(OpConstant(4) | Sqrt())()\<close> returns \<open>2.0\<close>.
\<close>

theorem pipe_applies_right_to_left_output:
  assumes "is_OpFunction fa"
  shows "pipe fa b = Inr (ComposedFunction fa (asfunction b)) \<and>
   result np (ComposedFunction fa (asfunction b)) a k =
     (case result np fa a k of Inl e \<Rightarrow> Inl e | Inr x \<Rightarrow> result np (asfunction b) [x] []) \<and>
   pipe (OpConstant (PInt 4)) (PFun (Sqrt_init [] [])) =
     Inr (ComposedFunction (OpConstant (PInt 4)) (Sqrt [] [])) \<and>
   result None (ComposedFunction (OpConstant (PInt 4)) (Sqrt [] [])) [] [] = Inr (PFloat 2)"
proof -
  have built: "pipe fa b = Inr (ComposedFunction fa (asfunction b))"
    using assms by (simp add: pipe_def or_op_def ComposedFunction_init_def)
  have four: "pipe (OpConstant (PInt 4)) (PFun (Sqrt_init [] [])) =
      Inr (ComposedFunction (OpConstant (PInt 4)) (Sqrt [] []))"
    by (simp add: pipe_def or_op_def ComposedFunction_init_def Sqrt_init_def)
  have two: "result None (ComposedFunction (OpConstant (PInt 4)) (Sqrt [] [])) [] [] = Inr (PFloat 2)"
    by (simp add: result_ComposedFunction result_OpConstant result_Sqrt Sqrt_call_def bind1_def
        math_sqrt_def)
  from built four two show ?thesis by (simp add: result_ComposedFunction)
qed

theorem pipe_applies_right_to_left_output_witness:
  "is_OpFunction (OpConstant (PInt 9)) \<and>
   pipe (OpConstant (PInt 9)) (PFun Neg) = Inr (ComposedFunction (OpConstant (PInt 9)) Neg) \<and>
   result None (ComposedFunction (OpConstant (PInt 9)) Neg) [PInt 1] [] = Inr (PInt (- 9)) \<and>
   result None (OpConstant (PInt 9)) [PInt 1] [] = Inr (PInt 9) \<and>
   result None Neg [PInt 9] [] = Inr (PInt (- 9))"
  using pipe_applies_right_to_left_output [of "OpConstant (PInt 9)" "PFun Neg" None "[PInt 1]" "[]"]
  by (simp add: result_OpConstant result_Neg Neg_call_def bind1_def py_neg_def)

text \<open>
  C10, as stated, fails where the left-hand side raises: \<^verbatim>\<open>((OpConstant(-1) | Sqrt()) | 7)()\<close>
  does not return \<open>7\<close>; without numpy, \<^verbatim>\<open>math.sqrt(-1)\<close> raises ValueError and the
  pipe passes the exception on.
\<close>

theorem pipe_into_value_propagates_error:
  "pipe (ComposedFunction (OpConstant (PInt (- 1))) (Sqrt [] [])) (PInt 7) =
     Inr (ComposedFunction (ComposedFunction (OpConstant (PInt (- 1))) (Sqrt [] []))
            (Constant (PInt 7))) \<and>
   result None
     (ComposedFunction (ComposedFunction (OpConstant (PInt (- 1))) (Sqrt [] []))
        (Constant (PInt 7)))
     [] [] = Inl ValueError"
  by (simp add: pipe_def or_op_def ComposedFunction_init_def result_ComposedFunction
      result_OpConstant result_Sqrt Sqrt_call_def bind1_def math_sqrt_def)

text \<open>
  C10, as amended. For every operator-algebra Function \<open>f\<close>, every value \<open>v\<close> that is
  not a Function and all call arguments, \<^verbatim>\<open>f | v\<close> is the pipe of \<open>f\<close> into
  \<open>Constant v\<close>, and \<^verbatim>\<open>(f | v)(args)\<close> evaluates \<^verbatim>\<open>f(args)\<close> first: an exception of
  \<open>f\<close> propagates, otherwise the call returns \<open>v\<close> itself, whatever \<open>f\<close> returned.
\<close>

theorem pipe_into_value_constant:
  assumes "is_OpFunction f" and "\<not> is_Function v"
  shows "pipe f v = Inr (ComposedFunction f (Constant v)) \<and>
   result np (ComposedFunction f (Constant v)) a k =
     (case result np f a k of Inl e \<Rightarrow> Inl e | Inr x \<Rightarrow> Inr v)"
  using assms
  by (simp add: pipe_def or_op_def ComposedFunction_init_def asfunction_plain
      result_ComposedFunction result_Constant split: sum.splits)

theorem pipe_into_value_constant_witness:
  "is_OpFunction OpIdentity \<and> \<not> is_Function (PInt 7) \<and>
   pipe OpIdentity (PInt 7) = Inr (ComposedFunction OpIdentity (Constant (PInt 7))) \<and>
   result None OpIdentity [PInt 1] [] = Inr (PInt 1) \<and>
   result None (ComposedFunction OpIdentity (Constant (PInt 7))) [PInt 1] [] = Inr (PInt 7)"
  using pipe_into_value_constant [of OpIdentity "PInt 7" None "[PInt 1]" "[]"]
  by (simp add: result_OpIdentity Identity_call_def)

subsection \<open>Clip and InBetween\<close>

text \<open>
  C6. Without numpy, \<^verbatim>\<open>Clip(low, high, leaf)\<close> evaluates its three operands and, on
  numbers, returns the value of \<open>low\<close> when leaf < low, the value of \<open>leaf\<close> when
  leaf < high, and the value of \<open>high\<close> otherwise. With low 0 and high 10 the leaf
  values -5, 15 and 5 give 0, 10 and 5.
\<close>

theorem clip_scalar_fallback:
  "(result None (asfunction low) a k = Inr lo \<and> result None (asfunction high) a k = Inr hi \<and>
    result None (asfunction leaf) a k = Inr lf \<and>
    num_of lo = Some l \<and> num_of hi = Some h \<and> num_of lf = Some x \<longrightarrow>
    result None (Clip_init low high leaf) a k =
      Inr (if x < l then lo else if x < h then lf else hi)) \<and>
   result None (Clip_init (PInt 0) (PInt 10) (PFun (Constant (PInt (- 5))))) [] [] = Inr (PInt 0) \<and>
   result None (Clip_init (PInt 0) (PInt 10) (PFun (Constant (PInt 15)))) [] [] = Inr (PInt 10) \<and>
   result None (Clip_init (PInt 0) (PInt 10) (PFun (Constant (PInt 5)))) [] [] = Inr (PInt 5)"
  by (simp add: Clip_init_def result_Clip Clip_result_def py_lt_def result_Constant)

theorem clip_scalar_fallback_witness:
  "result None (asfunction (PInt 0)) [PInt 7] [] = Inr (PInt 0) \<and>
   result None (asfunction (PFloat 2)) [PInt 7] [] = Inr (PFloat 2) \<and>
   result None (asfunction (PFun OpIdentity)) [PInt 7] [] = Inr (PInt 7) \<and>
   result None (Clip_init (PInt 0) (PFloat 2) (PFun OpIdentity)) [PInt 7] [] = Inr (PFloat 2)"
  using clip_scalar_fallback [of "PInt 0" "[PInt 7]" "[]" "PInt 0" "PFloat 2" "PFloat 2"
      "PFun OpIdentity" "PInt 7" 0 2 7]
  by (simp add: result_Constant result_OpIdentity Identity_call_def)

lemma scalar_backend_ok: "backend_ok (Some scalar_backend)"
  by (simp add: backend_ok_def and_on_bools_def scalar_backend_def)

text \<open>
  C7. \<^verbatim>\<open>InBetween(value, low, high)\<close> evaluates its three operands and, on numbers,
  returns whether low <= value and value < high: the lower bound belongs to the
  interval, the upper one does not. This holds without numpy, and with numpy when its
  \<^verbatim>\<open>logical_and\<close> is the conjunction on booleans. \<^verbatim>\<open>InBetween(Constant(5), 5, 10)()\<close>
  is true and \<^verbatim>\<open>InBetween(Constant(10), 5, 10)()\<close> is false.
\<close>

theorem inbetween_half_open:
  assumes "backend_ok np"
  shows "(result np (asfunction val) a k = Inr v \<and> result np (asfunction low) a k = Inr lo \<and>
    result np (asfunction high) a k = Inr hi \<and>
    num_of v = Some x \<and> num_of lo = Some l \<and> num_of hi = Some h \<longrightarrow>
    result np (InBetween_init val low high) a k = Inr (PBool (l \<le> x \<and> x < h))) \<and>
   result np (InBetween_init (PFun (Constant (PInt 5))) (PInt 5) (PInt 10)) [] [] = Inr (PBool True) \<and>
   result np (InBetween_init (PFun (Constant (PInt 10))) (PInt 5) (PInt 10)) [] [] = Inr (PBool False)"
  using assms
  by (cases np)
     (auto simp: backend_ok_def and_on_bools_def InBetween_init_def result_InBetween
        InBetween_result_def py_lt_def py_le_def result_Constant)

theorem inbetween_half_open_witness:
  "backend_ok (Some scalar_backend) \<and>
   result (Some scalar_backend) (asfunction (PFun OpIdentity)) [PInt 7] [] = Inr (PInt 7) \<and>
   result (Some scalar_backend) (InBetween_init (PFun OpIdentity) (PInt 7) (PFloat 8)) [PInt 7] [] =
     Inr (PBool True) \<and>
   result (Some scalar_backend) (InBetween_init (PFun (Constant (PInt 10))) (PInt 5) (PInt 10)) [] [] =
     Inr (PBool False)"
  using inbetween_half_open [OF scalar_backend_ok, of "PFun OpIdentity" "[PInt 7]" "[]" "PInt 7"
      "PInt 7" "PInt 7" "PFloat 8" "PFloat 8" 7 7 8]
  by (simp add: scalar_backend_ok result_Constant result_OpIdentity Identity_call_def)

subsection \<open>Lifting a list\<close>

text \<open>
  C8. Lifting a list builds a List Function with one child per element, the child
  being the lifted element, in the order of the elements; its evaluation (the first
  one, see C2) returns the list of the children's results in the same order. Lifting
  \<^verbatim>\<open>[Constant(3), Constant(4)]\<close> and calling the result with no arguments returns
  \<^verbatim>\<open>[3, 4]\<close>.
\<close>

theorem lifted_list_evaluates_in_order:
  "(list_all2 (\<lambda>e n. compound e = Inr n) es ns \<longrightarrow>
      compound (PList es) = Inr (List_F ns) \<and> length ns = length es) \<and>
   (list_all2 (\<lambda>n r. result np n a k = Inr r) ns rs \<longrightarrow>
      result np (List_F ns) a k = Inr (PList rs)) \<and>
   compound (PList [PFun (Constant (PInt 3)), PFun (Constant (PInt 4))]) =
      Inr (List_F [Constant (PInt 3), Constant (PInt 4)]) \<and>
   result np (List_F [Constant (PInt 3), Constant (PInt 4)]) [] [] = Inr (PList [PInt 3, PInt 4])"
  by (auto simp: compound_list_all2 List_init_def map_asfunction_PFun results_all2 result_List
        results_Cons results_Nil result_Constant list_all2_lengthD simp del: map_map)

theorem lifted_list_evaluates_in_order_witness:
  "compound (PInt 1) = Inr (Constant (PInt 1)) \<and>
   compound (PFun OpIdentity) = Inr OpIdentity \<and>
   compound (PList [PInt 1, PFun OpIdentity]) = Inr (List_F [Constant (PInt 1), OpIdentity]) \<and>
   result None (Constant (PInt 1)) [PInt 8] [] = Inr (PInt 1) \<and>
   result None OpIdentity [PInt 8] [] = Inr (PInt 8) \<and>
   result None (List_F [Constant (PInt 1), OpIdentity]) [PInt 8] [] = Inr (PList [PInt 1, PInt 8])"
  using lifted_list_evaluates_in_order [of "[PInt 1, PFun OpIdentity]" "[Constant (PInt 1), OpIdentity]"
      None "[PInt 8]" "[]" "[PInt 1, PInt 8]"]
  by (simp add: result_Constant result_OpIdentity Identity_call_def)

subsection \<open>Conversion is idempotent\<close>

text \<open>
  C9. \<open>asfunction\<close> returns a Function as it is and wraps any other value in a
  Constant, so converting twice is converting once. On the store: given the address of
  a Function it returns that address and allocates nothing; given the address of
  another value it returns the address of a new Constant of that value; and converting
  the address it returned gives the same address again and leaves the store as it is.
\<close>

theorem asfunction_idempotent:
  "asfunction (PFun n) = n \<and>
   asfunction (PFun (asfunction x)) = asfunction x \<and>
   (\<not> is_Function x \<longrightarrow> asfunction x = Constant x) \<and>
   (r < length h \<and> is_Function (h ! r) \<longrightarrow> asfunction_ref h r = Some (r, h)) \<and>
   (r < length h \<and> \<not> is_Function (h ! r) \<longrightarrow>
      asfunction_ref h r = Some (length h, h @ [PFun (Constant (h ! r))])) \<and>
   (r < length h \<longrightarrow>
      (\<exists>r1 h1. asfunction_ref h r = Some (r1, h1) \<and> asfunction_ref h1 r1 = Some (r1, h1) \<and>
         r1 < length h1 \<and> h1 ! r1 = PFun (asfunction (h ! r)) \<and> take (length h) h1 = h))"
  by (auto simp: asfunction_ref_def asfunction_plain asfunction_node nth_append)

theorem asfunction_idempotent_witness:
  "asfunction (PFun Identity) = Identity \<and>
   asfunction (PFun (asfunction (PInt 7))) = asfunction (PInt 7) \<and>
   asfunction (PInt 7) = Constant (PInt 7) \<and>
   asfunction_ref [PInt 7, PFun Identity] 1 = Some (1, [PInt 7, PFun Identity]) \<and>
   asfunction_ref [PInt 7, PFun Identity] 0 =
     Some (2, [PInt 7, PFun Identity, PFun (Constant (PInt 7))]) \<and>
   asfunction_ref [PInt 7, PFun Identity, PFun (Constant (PInt 7))] 2 =
     Some (2, [PInt 7, PFun Identity, PFun (Constant (PInt 7))])"
  using asfunction_idempotent [of Identity "PInt 7" 1 "[PInt 7, PFun Identity]"]
    asfunction_idempotent [of Identity "PInt 7" 0 "[PInt 7, PFun Identity]"]
  by (simp add: asfunction_ref_def)

end
